theory Spec2Isabelle
  imports Complex_Main
begin

section \<open>Array elements\<close>

text \<open>
  The layer's arrays hold \<^verbatim>\<open>float32\<close> values. An element is a finite number or one of
  the three special values of the format. Finite arithmetic is exact here: rounding,
  overflow of finite results and the sign of zero are not represented. The special values
  follow IEEE 754: \<open>NaN\<close> absorbs, \<open>inf - inf\<close> and \<open>0 * inf\<close> are \<open>NaN\<close>.
\<close>

datatype f32 = Finite real | PosInf | NegInf | NaN

fun f32_add :: "f32 \<Rightarrow> f32 \<Rightarrow> f32" where
  "f32_add (Finite a) (Finite c) = Finite (a + c)"
| "f32_add (Finite a) PosInf = PosInf"
| "f32_add (Finite a) NegInf = NegInf"
| "f32_add PosInf (Finite c) = PosInf"
| "f32_add PosInf PosInf = PosInf"
| "f32_add NegInf (Finite c) = NegInf"
| "f32_add NegInf NegInf = NegInf"
| "f32_add PosInf NegInf = NaN"
| "f32_add NegInf PosInf = NaN"
| "f32_add NaN v = NaN"
| "f32_add u NaN = NaN"

fun f32_mul :: "f32 \<Rightarrow> f32 \<Rightarrow> f32" where
  "f32_mul (Finite a) (Finite c) = Finite (a * c)"
| "f32_mul (Finite a) PosInf = (if a = 0 then NaN else if 0 < a then PosInf else NegInf)"
| "f32_mul (Finite a) NegInf = (if a = 0 then NaN else if 0 < a then NegInf else PosInf)"
| "f32_mul PosInf (Finite c) = (if c = 0 then NaN else if 0 < c then PosInf else NegInf)"
| "f32_mul NegInf (Finite c) = (if c = 0 then NaN else if 0 < c then NegInf else PosInf)"
| "f32_mul PosInf PosInf = PosInf"
| "f32_mul NegInf NegInf = PosInf"
| "f32_mul PosInf NegInf = NegInf"
| "f32_mul NegInf PosInf = NegInf"
| "f32_mul NaN v = NaN"
| "f32_mul u NaN = NaN"


section \<open>Arrays\<close>

text \<open>
  A numpy array is its shape and its elements in row-major order. numpy keeps
  \<open>length (data t) = prod_list (shape t)\<close> for every array it builds; \<open>wf_tensor\<close>
  names that invariant for the arrays that enter the layer from outside.
\<close>

datatype 'a tensor = Tensor (shape: "nat list") (data: "'a list")

definition ndim :: "'a tensor \<Rightarrow> nat" where
  "ndim t = length (shape t)"

definition wf_tensor :: "'a tensor \<Rightarrow> bool" where
  "wf_tensor t = (length (data t) = prod_list (shape t))"

text \<open>Row-major position of a multi-index, and the multi-index of a position.\<close>

fun ravel :: "nat list \<Rightarrow> nat list \<Rightarrow> nat" where
  "ravel (d # ds) (i # js) = i * prod_list ds + ravel ds js"
| "ravel ds js = 0"

fun unravel :: "nat list \<Rightarrow> nat \<Rightarrow> nat list" where
  "unravel [] p = []"
| "unravel (d # ds) p = (p div prod_list ds) # unravel ds (p mod prod_list ds)"

definition item :: "'a tensor \<Rightarrow> nat list \<Rightarrow> 'a" where
  "item t js = data t ! ravel (shape t) js"

text \<open>\<^verbatim>\<open>np.zeros(shape)\<close>, \<^verbatim>\<open>np.ones(shape)\<close> and \<^verbatim>\<open>x[None, :]\<close>.\<close>

definition zeros :: "nat list \<Rightarrow> f32 tensor" where
  "zeros sh = Tensor sh (replicate (prod_list sh) (Finite 0))"

definition ones :: "nat list \<Rightarrow> f32 tensor" where
  "ones sh = Tensor sh (replicate (prod_list sh) (Finite 1))"

definition expand_dims0 :: "'a tensor \<Rightarrow> 'a tensor" where
  "expand_dims0 t = Tensor (1 # shape t) (data t)"

subsection \<open>Broadcasting\<close>

text \<open>
  numpy aligns two shapes at their last axis; two extents are compatible when they are
  equal or one of them is 1. An operand is read at an index of the result by dropping the
  leading axes it does not have and reading position 0 along each axis of extent 1.
\<close>

fun broadcast_rev :: "nat list \<Rightarrow> nat list \<Rightarrow> nat list option" where
  "broadcast_rev [] ys = Some ys"
| "broadcast_rev (x # xs) [] = Some (x # xs)"
| "broadcast_rev (x # xs) (y # ys) =
     (if x = y \<or> y = 1 then map_option ((#) x) (broadcast_rev xs ys)
      else if x = 1 then map_option ((#) y) (broadcast_rev xs ys)
      else None)"

definition broadcast_shapes :: "nat list \<Rightarrow> nat list \<Rightarrow> nat list option" where
  "broadcast_shapes s t = map_option rev (broadcast_rev (rev s) (rev t))"

definition bcast_index :: "nat list \<Rightarrow> nat list \<Rightarrow> nat list" where
  "bcast_index s js =
     map2 (\<lambda>d i. if d = 1 then 0 else i) s (drop (length js - length s) js)"

definition bcast_get :: "'a tensor \<Rightarrow> nat list \<Rightarrow> 'a" where
  "bcast_get t js = item t (bcast_index (shape t) js)"

subsection \<open>Errors\<close>

text \<open>
  Every way the layer's code can raise. \<open>ConfigError\<close> is the only exception the layer
  raises itself (the \<^verbatim>\<open>raise ValueError(...)\<close> of \<^verbatim>\<open>_initialize_weight\<close>, with its
  message). \<open>MatmulError\<close> and \<open>BroadcastError\<close> are the \<^verbatim>\<open>ValueError\<close>s that numpy
  raises inside \<^verbatim>\<open>@\<close> and \<^verbatim>\<open>+\<close>; \<open>UnpackError\<close> is the \<^verbatim>\<open>ValueError\<close> of a tuple
  unpacking of the wrong length; the others are Python's exceptions of the same name.
\<close>

datatype error =
    ConfigError string
  | MatmulError
  | BroadcastError
  | UnpackError
  | AttributeError
  | IndexError
  | ZeroDivisionError

fun raised_by_layer :: "error \<Rightarrow> bool" where
  "raised_by_layer (ConfigError m) = True"
| "raised_by_layer e = False"

fun raised_by_numpy :: "error \<Rightarrow> bool" where
  "raised_by_numpy MatmulError = True"
| "raised_by_numpy BroadcastError = True"
| "raised_by_numpy e = False"

subsection \<open>Elementwise sum and matrix product\<close>

definition add_tensor :: "f32 tensor \<Rightarrow> f32 tensor \<Rightarrow> error + f32 tensor" where
  "add_tensor s t =
     (case broadcast_shapes (shape s) (shape t) of
        None \<Rightarrow> Inl BroadcastError
      | Some sh \<Rightarrow>
          Inr (Tensor sh
            (map (\<lambda>p. f32_add (bcast_get s (unravel sh p)) (bcast_get t (unravel sh p)))
               [0..<prod_list sh])))"

text \<open>The inner product of two rows of \<open>k\<close> elements, summed from the left.\<close>

definition dot :: "nat \<Rightarrow> (nat \<Rightarrow> f32) \<Rightarrow> (nat \<Rightarrow> f32) \<Rightarrow> f32" where
  "dot k f g = foldl f32_add (Finite 0) (map (\<lambda>c. f32_mul (f c) (g c)) [0..<k])"

text \<open>
  \<^verbatim>\<open>s @ t\<close> (\<^verbatim>\<open>np.matmul\<close>): a rank-0 operand is refused; a rank-1 operand is
  treated as a row (left) or a column (right) and the added axis is removed from the
  result; the last axis of \<open>s\<close> must equal the last but one of \<open>t\<close>; the leading axes are
  broadcast.
\<close>

definition matmul :: "f32 tensor \<Rightarrow> f32 tensor \<Rightarrow> error + f32 tensor" where
  "matmul s t =
     (if ndim s = 0 \<or> ndim t = 0 then Inl MatmulError
      else
        let ss = (if ndim s = 1 then 1 # shape s else shape s);
            ts = (if ndim t = 1 then shape t @ [1] else shape t);
            sb = butlast (butlast ss);
            tb = butlast (butlast ts);
            n = last (butlast ss);
            k = last ss;
            k' = last (butlast ts);
            m = last ts
        in
          if k \<noteq> k' then Inl MatmulError
          else
            (case broadcast_shapes sb tb of
               None \<Rightarrow> Inl MatmulError
             | Some bs \<Rightarrow>
                 Inr (Tensor
                   (bs @ (if ndim s = 1 then [] else [n]) @ (if ndim t = 1 then [] else [m]))
                   (map (\<lambda>p.
                      let js = unravel (bs @ [n, m]) p;
                          i = js ! length bs;
                          j = js ! Suc (length bs);
                          so = ravel sb (bcast_index sb (take (length bs) js)) * (n * k);
                          to = ravel tb (bcast_index tb (take (length bs) js)) * (k * m)
                      in dot k (\<lambda>c. data s ! (so + i * k + c)) (\<lambda>c. data t ! (to + c * m + j)))
                    [0..<prod_list (bs @ [n, m])]))))"

section \<open>The Dense layer\<close>

text \<open>
  The attributes of a \<^verbatim>\<open>Dense\<close> object: \<open>w\<close> and \<open>b\<close>, set by \<^verbatim>\<open>__init__\<close>, and
  \<open>inputs\<close>, the list of cached inputs, which \<^verbatim>\<open>get_weight_gradients\<close> reads and no
  method of \<^verbatim>\<open>Dense\<close> writes (the base class \<^verbatim>\<open>Diffable\<close> of \<^verbatim>\<open>beras.core\<close> owns it).
  \<open>None\<close> is the attribute not being set. \<^verbatim>\<open>Variable\<close> wraps an array without changing
  its shape or values.
\<close>

record Dense =
  w :: "f32 tensor"
  b :: "f32 tensor"
  inputs :: "f32 tensor list option"

definition weights :: "Dense \<Rightarrow> f32 tensor list" where
  "weights self = [w self, b self]"

text \<open>
  \<^verbatim>\<open>forward\<close> returns its result and the object after the call. The promoted \<open>x\<close> is a
  local variable.
\<close>

definition forward :: "Dense \<Rightarrow> f32 tensor \<Rightarrow> (error + f32 tensor) \<times> Dense" where
  "forward self x =
     (let x' = (if ndim x = 1 then expand_dims0 x else x)
      in ((case matmul x' (w self) of
             Inl e \<Rightarrow> Inl e
           | Inr y \<Rightarrow> add_tensor y (b self)),
          self))"

definition get_input_gradients :: "Dense \<Rightarrow> f32 tensor list" where
  "get_input_gradients self = [w self]"

text \<open>
  \<^verbatim>\<open>g[:, j] = v\<close> on an array of shape \<open>(n, m)\<close> and \<^verbatim>\<open>g[i, :, j] = v\<close> on one of
  shape \<open>(B, n, m)\<close> write the \<open>n\<close> elements of \<open>v\<close> at stride \<open>m\<close>.
\<close>

definition assign_strided :: "'a list \<Rightarrow> nat \<Rightarrow> nat \<Rightarrow> nat \<Rightarrow> 'a list \<Rightarrow> 'a list" where
  "assign_strided buf start stride n v =
     fold (\<lambda>k d. d[start + k * stride := v ! k]) [0..<n] buf"

definition set_column :: "'a tensor \<Rightarrow> nat \<Rightarrow> 'a tensor \<Rightarrow> 'a tensor" where
  "set_column g j v =
     Tensor (shape g) (assign_strided (data g) j (shape g ! 1) (shape g ! 0) (data v))"

definition row :: "'a tensor \<Rightarrow> nat \<Rightarrow> 'a tensor" where
  "row x i = Tensor (tl (shape x))
     (take (prod_list (tl (shape x))) (drop (i * prod_list (tl (shape x))) (data x)))"

definition set_slice :: "'a tensor \<Rightarrow> nat \<Rightarrow> nat \<Rightarrow> 'a tensor \<Rightarrow> 'a tensor" where
  "set_slice g i j v =
     Tensor (shape g)
       (assign_strided (data g) (i * (shape g ! 1 * shape g ! 2) + j) (shape g ! 2)
          (shape g ! 1) (data v))"

definition get_weight_gradients :: "Dense \<Rightarrow> error + f32 tensor list" where
  "get_weight_gradients self =
     (case inputs self of
        None \<Rightarrow> Inl AttributeError
      | Some [] \<Rightarrow> Inl IndexError
      | Some (x # others) \<Rightarrow>
          if ndim (w self) < 2 then Inl IndexError
          else
            let out_dim = shape (w self) ! 1 in
            if ndim x = 1 then
              let n = shape x ! 0;
                  w_grad = fold (\<lambda>j g. set_column g j x) [0..<out_dim] (zeros [n, out_dim]);
                  b_grad = ones [out_dim]
              in Inr [w_grad, b_grad]
            else if ndim x \<noteq> 2 then Inl UnpackError
            else
              let batch_size = shape x ! 0;
                  n = shape x ! 1;
                  w_grad =
                    fold (\<lambda>i g. fold (\<lambda>j g. set_slice g i j (row x i)) [0..<out_dim] g)
                      [0..<batch_size] (zeros [batch_size, n, out_dim]);
                  b_grad = ones [out_dim]
              in Inr [w_grad, b_grad])"

subsection \<open>Initialisation\<close>

text \<open>The names of \<^verbatim>\<open>DENSE_INITIALIZERS\<close>.\<close>

definition DENSE_INITIALIZERS :: "string list" where
  "DENSE_INITIALIZERS =
     [''zero'', ''normal'', ''xavier'', ''kaiming'', ''xavier uniform'', ''kaiming uniform'']"

text \<open>
  \<^verbatim>\<open>str.lower\<close> on the ASCII letters; initializer names are ASCII strings.
\<close>

definition lower_char :: "char \<Rightarrow> char" where
  "lower_char c =
     (case map_of (zip ''ABCDEFGHIJKLMNOPQRSTUVWXYZ'' ''abcdefghijklmnopqrstuvwxyz'') c of
        None \<Rightarrow> c
      | Some l \<Rightarrow> l)"

definition lower :: "string \<Rightarrow> string" where
  "lower s = map lower_char s"

text \<open>
  The draws of numpy's global generator are a parameter: \<open>normal g loc scale p\<close> and
  \<open>uniform g low high p\<close> are the \<open>p\<close>-th value of a request. A draw is a finite number.
\<close>

record np_random =
  normal :: "real \<Rightarrow> real \<Rightarrow> nat \<Rightarrow> real"
  uniform :: "real \<Rightarrow> real \<Rightarrow> nat \<Rightarrow> real"

definition random_normal :: "np_random \<Rightarrow> real \<Rightarrow> real \<Rightarrow> nat list \<Rightarrow> f32 tensor" where
  "random_normal g loc scale sh =
     Tensor sh (map (\<lambda>p. Finite (normal g loc scale p)) [0..<prod_list sh])"

definition random_uniform :: "np_random \<Rightarrow> real \<Rightarrow> real \<Rightarrow> nat list \<Rightarrow> f32 tensor" where
  "random_uniform g low high sh =
     Tensor sh (map (\<lambda>p. Finite (uniform g low high p)) [0..<prod_list sh])"

definition unknown_message :: "string \<Rightarrow> string" where
  "unknown_message s =
     ''Unknown dense weight initialization strategy '' @ [CHR 0x27] @ s @ [CHR 0x27]
       @ '' requested''"

text \<open>
  \<^verbatim>\<open>_initialize_weight\<close>. The sizes are natural numbers; Python's \<^verbatim>\<open>2.0 / 0\<close> raises
  \<^verbatim>\<open>ZeroDivisionError\<close>.
\<close>

definition initialize_weight ::
  "np_random \<Rightarrow> string \<Rightarrow> nat \<Rightarrow> nat \<Rightarrow> error + (f32 tensor \<times> f32 tensor)" where
  "initialize_weight g initializer input_size output_size =
     (let init = lower initializer in
      if init = ''zero'' then
        Inr (zeros [input_size, output_size], zeros [output_size])
      else if init = ''normal'' then
        Inr (random_normal g 0 1 [input_size, output_size], zeros [output_size])
      else if init = ''xavier'' then
        (if input_size + output_size = 0 then Inl ZeroDivisionError
         else
           let std = sqrt (2 / real (input_size + output_size))
           in Inr (random_normal g 0 std [input_size, output_size], zeros [output_size]))
      else if init = ''kaiming'' then
        (if input_size = 0 then Inl ZeroDivisionError
         else
           let std = sqrt (2 / real input_size)
           in Inr (random_normal g 0 std [input_size, output_size], zeros [output_size]))
      else if init = ''xavier uniform'' then
        (if input_size + output_size = 0 then Inl ZeroDivisionError
         else
           let limit = sqrt (6 / real (input_size + output_size))
           in Inr (random_uniform g (- limit) limit [input_size, output_size],
                   zeros [output_size]))
      else if init = ''kaiming uniform'' then
        (if input_size = 0 then Inl ZeroDivisionError
         else
           let limit = sqrt (6 / real input_size)
           in Inr (random_uniform g (- limit) limit [input_size, output_size],
                   zeros [output_size]))
      else Inl (ConfigError (unknown_message init)))"

text \<open>\<^verbatim>\<open>Dense.__init__\<close>: the object exists only when \<^verbatim>\<open>_initialize_weight\<close> returns.\<close>

definition Dense_init :: "np_random \<Rightarrow> nat \<Rightarrow> nat \<Rightarrow> string \<Rightarrow> error + Dense" where
  "Dense_init g input_size output_size initializer =
     (case initialize_weight g initializer input_size output_size of
        Inl e \<Rightarrow> Inl e
      | Inr (wt, bt) \<Rightarrow> Inr \<lparr>w = wt, b = bt, inputs = None\<rparr>)"

text \<open>A generator whose every draw is 0, for concrete runs.\<close>

definition null_random :: np_random where
  "null_random = \<lparr>normal = (\<lambda>loc scale p. 0), uniform = (\<lambda>low high p. 0)\<rparr>"

section \<open>Notions of the specification\<close>



section \<open>The gradient loops on the element list\<close>

text \<open>
  The loop \<^verbatim>\<open>for j in range(out_dim)\<close> writes \<open>v\<close> into every column of the rows
  \<open>r0 ..< r0 + n\<close> of a buffer of row width \<open>m\<close>; \<open>column_loop\<close> is its state after \<open>J\<close>
  iterations and \<open>batch_loop\<close> the state of the loop over the samples after \<open>I\<close>.
\<close>

definition column_loop :: "'a list \<Rightarrow> nat \<Rightarrow> nat \<Rightarrow> nat \<Rightarrow> 'a list \<Rightarrow> nat \<Rightarrow> 'a list" where
  "column_loop buf r0 m n v J =
     fold (\<lambda>j d. assign_strided d (r0 * m + j) m n v) [0..<J] buf"

definition batch_loop :: "'a list \<Rightarrow> 'a tensor \<Rightarrow> nat \<Rightarrow> nat \<Rightarrow> nat \<Rightarrow> 'a list" where
  "batch_loop buf x m n I =
     fold (\<lambda>i d. column_loop d (i * n) m n (data (row x i)) m) [0..<I] buf"

section \<open>Concrete layers and inputs\<close>

text \<open>
  The layer of the specification's scenarios (\<^verbatim>\<open>Dense(2, 3, "zero")\<close>), a layer with
  other weights, and the inputs \<^verbatim>\<open>[1, 2]\<close> and \<^verbatim>\<open>[[1, 2], [3, 4]]\<close>.
\<close>

definition zero_layer :: Dense where
  "zero_layer = \<lparr>w = zeros [2, 3], b = zeros [3], inputs = None\<rparr>"


definition sample :: "f32 tensor" where
  "sample = Tensor [2] [Finite 1, Finite 2]"

definition batch :: "f32 tensor" where
  "batch = Tensor [2, 2] [Finite 1, Finite 2, Finite 3, Finite 4]"

section \<open>Arithmetic of row-major positions\<close>

lemma idx2_bound:
  assumes "i < B" and "j < (m::nat)"
  shows "i * m + j < B * m"
proof -
  have "i * m + j < Suc i * m" using assms(2) by simp
  also have "\<dots> \<le> B * m" using assms(1) by (simp add: Suc_leI mult_le_mono1 del: mult_Suc)
  finally show ?thesis .
qed

lemma idx2_div [simp]: "j < (m::nat) \<Longrightarrow> (i * m + j) div m = i"
  by simp

lemma idx2_mod [simp]: "j < (m::nat) \<Longrightarrow> (i * m + j) mod m = j"
  by simp


lemma bcast_position:
  assumes "p < B * m"
  shows "(if B = 1 then 0 else p div m) * m + (if m = 1 then 0 else p mod m) = (p::nat)"
proof (cases "B = 1")
  case True
  then have "p < m" using assms by simp
  then show ?thesis using True by auto
next
  case False
  then show ?thesis by auto
qed


section \<open>Shapes of the arrays the layer builds\<close>

lemma zeros_shape [simp]: "shape (zeros sh) = sh"
  by (simp add: zeros_def)

lemma zeros_wf [simp]: "wf_tensor (zeros sh)"
  by (simp add: zeros_def wf_tensor_def)

lemma random_normal_shape [simp]: "shape (random_normal g loc scale sh) = sh"
  by (simp add: random_normal_def)

lemma random_uniform_shape [simp]: "shape (random_uniform g lo hi sh) = sh"
  by (simp add: random_uniform_def)

lemma random_normal_wf [simp]: "wf_tensor (random_normal g loc scale sh)"
  by (simp add: random_normal_def wf_tensor_def)

lemma random_uniform_wf [simp]: "wf_tensor (random_uniform g lo hi sh)"
  by (simp add: random_uniform_def wf_tensor_def)

lemma broadcast_shapes_Nil [simp]: "broadcast_shapes [] [] = Some []"
  by (simp add: broadcast_shapes_def)

lemma broadcast_shapes_row [simp]: "broadcast_shapes [B, m] [m] = Some [B, m]"
  by (simp add: broadcast_shapes_def)

section \<open>The forward pass in closed form\<close>

lemma matmul_2d:
  assumes "shape s = [B, n]" and "shape t = [n, m]"
  shows "matmul s t =
    Inr (Tensor [B, m]
      (map (\<lambda>p. dot n (\<lambda>c. data s ! (p div m * n + c)) (\<lambda>c. data t ! (c * m + p mod m)))
         [0..<B * m]))"
  using assms by (simp add: matmul_def ndim_def Let_def)

lemma add_tensor_row:
  assumes "shape y = [B, m]" and "shape bt = [m]"
  shows "add_tensor y bt =
    Inr (Tensor [B, m] (map (\<lambda>p. f32_add (data y ! p) (data bt ! (p mod m))) [0..<B * m]))"
proof -
  have "f32_add (bcast_get y (unravel [B, m] p)) (bcast_get bt (unravel [B, m] p))
        = f32_add (data y ! p) (data bt ! (p mod m))" if "p < B * m" for p
  proof -
    have "bcast_get y (unravel [B, m] p)
        = data y ! ((if B = 1 then 0 else p div m) * m + (if m = 1 then 0 else p mod m))"
      using assms by (simp add: bcast_get_def bcast_index_def item_def)
    moreover have "bcast_get bt (unravel [B, m] p) = data bt ! (p mod m)"
      using assms by (simp add: bcast_get_def bcast_index_def item_def)
    ultimately show ?thesis
      using bcast_position [OF that] by simp
  qed
  then show ?thesis
    using assms by (simp add: add_tensor_def)
qed


lemma forward_1d:
  assumes "shape x = [n]" and "shape (w self) = [n, m]" and "shape (b self) = [m]"
  shows "fst (forward self x) =
    Inr (Tensor [1, m]
      (map (\<lambda>p. f32_add
                 (dot n (\<lambda>c. data x ! (p div m * n + c)) (\<lambda>c. data (w self) ! (c * m + p mod m)))
                 (data (b self) ! (p mod m)))
         [0..<m]))"
proof -
  have "shape (expand_dims0 x) = [1, n]" using assms by (simp add: expand_dims0_def)
  from matmul_2d [OF this assms(2)] show ?thesis
    using assms
    by (simp add: forward_def ndim_def add_tensor_row [where B = 1 and m = m] expand_dims0_def)
qed

lemma forward_mismatch:
  assumes "shape (w self) = [n, m]" and "shape x \<noteq> []" and "last (shape x) \<noteq> n"
  shows "fst (forward self x) = Inl MatmulError"
  using assms
  by (auto simp add: forward_def matmul_def ndim_def Let_def expand_dims0_def)

lemma forward_state: "snd (forward self x) = self"
  by (simp add: forward_def Let_def)

section \<open>A layer of zeros\<close>




section \<open>Construction\<close>


lemma initialize_weight_known:
  assumes "lower s \<in> set DENSE_INITIALIZERS" and "0 < n"
  shows "\<exists>wt. initialize_weight g s n m = Inr (wt, zeros [m]) \<and> shape wt = [n, m] \<and> wf_tensor wt"
  using assms by (auto simp add: initialize_weight_def DENSE_INITIALIZERS_def Let_def)

lemma initialize_weight_shapes:
  assumes "initialize_weight g s n m = Inr (wt, bt)"
  shows "shape wt = [n, m] \<and> wf_tensor wt \<and> bt = zeros [m]"
  using assms by (auto simp add: initialize_weight_def Let_def split: if_splits)

lemma Dense_init_fields:
  assumes "Dense_init g n m s = Inr self"
  shows "shape (w self) = [n, m] \<and> wf_tensor (w self) \<and> b self = zeros [m] \<and> inputs self = None"
proof (cases "initialize_weight g s n m")
  case (Inl e)
  then show ?thesis using assms by (simp add: Dense_init_def)
next
  case (Inr p)
  obtain wt bt where p: "p = (wt, bt)" by (cases p)
  have "shape wt = [n, m] \<and> wf_tensor wt \<and> bt = zeros [m]"
    using Inr p by (intro initialize_weight_shapes [of g s]) simp
  moreover have "self = \<lparr>w = wt, b = bt, inputs = None\<rparr>"
    using assms Inr p by (simp add: Dense_init_def)
  ultimately show ?thesis by simp
qed


lemma Dense_init_zero_layer: "Dense_init null_random 2 3 ''zero'' = Inr zero_layer"
  by (simp add: Dense_init_def initialize_weight_def lower_def lower_char_def zero_layer_def)




section \<open>The gradient loops\<close>

lemma assign_strided_0 [simp]: "assign_strided buf s st 0 v = buf"
  by (simp add: assign_strided_def)

lemma assign_strided_Suc:
  "assign_strided buf s st (Suc n) v = (assign_strided buf s st n v)[s + n * st := v ! n]"
  by (simp add: assign_strided_def)

lemma length_assign_strided [simp]: "length (assign_strided buf s st n v) = length buf"
  by (induction n) (simp_all add: assign_strided_Suc)

lemma assign_strided_miss:
  assumes "\<And>k. k < n \<Longrightarrow> q \<noteq> s + k * st"
  shows "assign_strided buf s st n v ! q = buf ! q"
  using assms
proof (induction n)
  case 0
  show ?case by simp
next
  case (Suc n)
  have "q \<noteq> s + n * st" using Suc.prems [of n] by simp
  moreover have "assign_strided buf s st n v ! q = buf ! q" using Suc by simp
  ultimately show ?case by (simp add: assign_strided_Suc)
qed

lemma assign_strided_hit:
  assumes "0 < st" and "k < n" and "s + k * st < length buf"
  shows "assign_strided buf s st n v ! (s + k * st) = v ! k"
  using assms(2)
proof (induction n)
  case 0
  then show ?case by simp
next
  case (Suc n)
  show ?case
  proof (cases "k = n")
    case True
    then show ?thesis using assms(3) by (simp add: assign_strided_Suc)
  next
    case False
    then have "k < n" using Suc.prems by simp
    moreover have "s + k * st \<noteq> s + n * st" using False assms(1) by simp
    ultimately show ?thesis using Suc.IH by (simp add: assign_strided_Suc)
  qed
qed

lemma column_loop_0 [simp]: "column_loop buf r0 m n v 0 = buf"
  by (simp add: column_loop_def)

lemma column_loop_Suc:
  "column_loop buf r0 m n v (Suc J) = assign_strided (column_loop buf r0 m n v J) (r0 * m + J) m n v"
  by (simp add: column_loop_def)

lemma length_column_loop [simp]: "length (column_loop buf r0 m n v J) = length buf"
  by (induction J) (simp_all add: column_loop_Suc)

lemma column_loop_outside:
  assumes "J \<le> m" and "j < m" and "r < r0 \<or> r0 + n \<le> r \<or> J \<le> j"
  shows "column_loop buf r0 m n v J ! (r * m + j) = buf ! (r * m + j)"
  using assms(1,3)
proof (induction J)
  case 0
  show ?case by simp
next
  case (Suc J)
  have J: "J < m" using Suc.prems by simp
  have "r * m + j \<noteq> r0 * m + J + k * m" if "k < n" for k
  proof
    assume eq: "r * m + j = r0 * m + J + k * m"
    then have "r * m + j = (r0 + k) * m + J" by (simp add: algebra_simps)
    then have "(r * m + j) mod m = ((r0 + k) * m + J) mod m"
      and "(r * m + j) div m = ((r0 + k) * m + J) div m" by simp_all
    then have "j = J" and "r = r0 + k" using J assms(2) by simp_all
    then show False using Suc.prems(2) that by auto
  qed
  then have "column_loop buf r0 m n v (Suc J) ! (r * m + j) = column_loop buf r0 m n v J ! (r * m + j)"
    by (simp add: column_loop_Suc assign_strided_miss)
  then show ?case using Suc by auto
qed

lemma column_loop_written:
  assumes "J \<le> m" and "j < J" and "k < n" and "(r0 + n) * m \<le> length buf"
  shows "column_loop buf r0 m n v J ! ((r0 + k) * m + j) = v ! k"
  using assms(1,2)
proof (induction J)
  case 0
  then show ?case by simp
next
  case (Suc J)
  have J: "J < m" using Suc.prems by simp
  show ?case
  proof (cases "j = J")
    case True
    have "(r0 + k) * m + J < (r0 + n) * m" using assms(3) J by (intro idx2_bound) simp_all
    then have "r0 * m + J + k * m < length (column_loop buf r0 m n v J)"
      using assms(4) by (simp add: algebra_simps)
    then have "assign_strided (column_loop buf r0 m n v J) (r0 * m + J) m n v ! (r0 * m + J + k * m) = v ! k"
      using J assms(3) by (intro assign_strided_hit) simp_all
    moreover have "(r0 + k) * m + j = r0 * m + J + k * m" using True by (simp add: algebra_simps)
    ultimately show ?thesis by (simp add: column_loop_Suc)
  next
    case False
    then have jJ: "j < J" using Suc.prems by simp
    have "(r0 + k) * m + j \<noteq> r0 * m + J + k' * m" if "k' < n" for k'
    proof
      assume "(r0 + k) * m + j = r0 * m + J + k' * m"
      then have "(r0 + k) * m + j = (r0 + k') * m + J" by (simp add: algebra_simps)
      then have "((r0 + k) * m + j) mod m = ((r0 + k') * m + J) mod m" by simp
      then have "j = J" using J jJ by simp
      then show False using False by simp
    qed
    then have "column_loop buf r0 m n v (Suc J) ! ((r0 + k) * m + j)
        = column_loop buf r0 m n v J ! ((r0 + k) * m + j)"
      by (simp add: column_loop_Suc assign_strided_miss)
    then show ?thesis using Suc jJ by simp
  qed
qed


lemma fold_set_column:
  "fold (\<lambda>j g. set_column g j x) [0..<J] (Tensor [n, m] d)
     = Tensor [n, m] (column_loop d 0 m n (data x) J)"
  by (induction J) (simp_all add: column_loop_Suc set_column_def)

lemma fold_set_slice:
  "fold (\<lambda>j g. set_slice g i j r) [0..<J] (Tensor [B, n, m] d)
     = Tensor [B, n, m] (column_loop d (i * n) m n (data r) J)"
  by (induction J) (simp_all add: column_loop_Suc set_slice_def mult.assoc)

lemma batch_loop_0 [simp]: "batch_loop buf x m n 0 = buf"
  by (simp add: batch_loop_def)

lemma batch_loop_Suc:
  "batch_loop buf x m n (Suc I)
     = column_loop (batch_loop buf x m n I) (I * n) m n (data (row x I)) m"
  by (simp add: batch_loop_def)

lemma length_batch_loop [simp]: "length (batch_loop buf x m n I) = length buf"
  by (induction I) (simp_all add: batch_loop_Suc)

lemma fold_batch:
  "fold (\<lambda>i g. fold (\<lambda>j g. set_slice g i j (row x i)) [0..<m] g) [0..<I] (Tensor [B, n, m] d)
     = Tensor [B, n, m] (batch_loop d x m n I)"
  by (induction I) (simp_all add: batch_loop_Suc fold_set_slice)

lemma batch_loop_written:
  assumes "I \<le> B" and "length buf = B * n * m" and "i < I" and "k < n" and "j < m"
  shows "batch_loop buf x m n I ! ((i * n + k) * m + j) = data (row x i) ! k"
  using assms(1,3)
proof (induction I)
  case 0
  then show ?case by simp
next
  case (Suc I)
  have I: "I < B" using Suc.prems by simp
  show ?case
  proof (cases "i = I")
    case True
    have "Suc I * (n * m) \<le> B * (n * m)" using I by (intro mult_le_mono1) simp
    then have "(I * n + n) * m \<le> length (batch_loop buf x m n I)"
      using assms(2) by (simp add: algebra_simps)
    then show ?thesis
      using True assms(4,5) by (simp add: batch_loop_Suc column_loop_written)
  next
    case False
    then have iI: "i < I" using Suc.prems by simp
    then have "i * n + k < I * n" using assms(4) by (rule idx2_bound)
    then have "batch_loop buf x m n (Suc I) ! ((i * n + k) * m + j)
        = batch_loop buf x m n I ! ((i * n + k) * m + j)"
      using assms(5) by (simp add: batch_loop_Suc column_loop_outside)
    then show ?thesis using Suc iI by simp
  qed
qed

lemma row_entry:
  assumes "shape x = [B, n]" and "wf_tensor x" and "i < B" and "k < n"
  shows "data (row x i) ! k = data x ! (i * n + k)"
proof -
  have "i * n \<le> B * n" using assms(3) by (intro mult_le_mono1) simp
  then have "i * n \<le> length (data x)" using assms(1,2) by (simp add: wf_tensor_def)
  then show ?thesis using assms(1,4) by (simp add: row_def)
qed

lemma get_weight_gradients_1d:
  assumes "inputs self = Some (x # others)" and "shape (w self) = [n_in, m]"
    and "shape x = [n]"
  shows "get_weight_gradients self =
    Inr [Tensor [n, m] (column_loop (replicate (n * m) (Finite 0)) 0 m n (data x) m),
         ones [m]]"
  using assms
  by (simp add: get_weight_gradients_def ndim_def zeros_def fold_set_column)

lemma get_weight_gradients_2d:
  assumes "inputs self = Some (x # others)" and "shape (w self) = [n_in, m]"
    and "shape x = [B, n]"
  shows "get_weight_gradients self =
    Inr [Tensor [B, n, m] (batch_loop (replicate (B * (n * m)) (Finite 0)) x m n B),
         ones [m]]"
  using assms
  by (simp add: get_weight_gradients_def ndim_def zeros_def fold_batch)

section \<open>The claims\<close>

subsection \<open>C1: the forward pass\<close>



subsection \<open>C2: the weight gradient\<close>

text \<open>
  C2. With a cached input \<open>x\<close> and \<open>W\<close> of shape \<open>(n_in, m)\<close>: when \<open>x\<close> is rank-1 of length
  \<open>n\<close>, the first element of \<open>get_weight_gradients\<close> has shape \<open>(n, m)\<close> and every column
  equals \<open>x\<close>; when \<open>x\<close> has shape \<open>(B, n)\<close>, it has shape \<open>(B, n, m)\<close> and in the slice of
  every sample \<open>i\<close> every column equals \<open>x[i]\<close>. The case of the claim is \<open>n = n_in\<close>.
\<close>

theorem weight_gradient_columns:
  assumes "inputs self = Some (x # others)" and "shape (w self) = [n_in, m]" and "wf_tensor x"
  shows "(shape x = [n] \<longrightarrow>
            (\<exists>wg bg. get_weight_gradients self = Inr [wg, bg] \<and> shape wg = [n, m]
               \<and> wf_tensor wg \<and> (\<forall>j<m. \<forall>k<n. item wg [k, j] = item x [k])))
       \<and> (shape x = [B, n] \<longrightarrow>
            (\<exists>wg bg. get_weight_gradients self = Inr [wg, bg] \<and> shape wg = [B, n, m]
               \<and> wf_tensor wg
               \<and> (\<forall>i<B. \<forall>j<m. \<forall>k<n. item wg [i, k, j] = item x [i, k])))"
proof (intro conjI impI)
  assume sx: "shape x = [n]"
  define wg where "wg = Tensor [n, m] (column_loop (replicate (n * m) (Finite 0)) 0 m n (data x) m)"
  have run: "get_weight_gradients self = Inr [wg, ones [m]]"
    unfolding wg_def using assms(1,2) sx by (rule get_weight_gradients_1d)
  have "item wg [k, j] = item x [k]" if "j < m" and "k < n" for j k
    using that sx column_loop_written [of m m j k n 0 "replicate (n * m) (Finite 0)" "data x"]
    by (simp add: wg_def item_def)
  then show "\<exists>wg bg. get_weight_gradients self = Inr [wg, bg] \<and> shape wg = [n, m]
      \<and> wf_tensor wg \<and> (\<forall>j<m. \<forall>k<n. item wg [k, j] = item x [k])"
    using run by (simp add: wg_def wf_tensor_def)
next
  assume sx: "shape x = [B, n]"
  define wg where
    "wg = Tensor [B, n, m] (batch_loop (replicate (B * (n * m)) (Finite 0)) x m n B)"
  have run: "get_weight_gradients self = Inr [wg, ones [m]]"
    unfolding wg_def using assms(1,2) sx by (rule get_weight_gradients_2d)
  have "item wg [i, k, j] = item x [i, k]" if "i < B" and "j < m" and "k < n" for i j k
  proof -
    have "batch_loop (replicate (B * (n * m)) (Finite 0)) x m n B ! ((i * n + k) * m + j)
        = data (row x i) ! k"
      using that by (intro batch_loop_written [where B = B]) simp_all
    moreover have "i * (n * m) + (k * m + j) = (i * n + k) * m + j" by (simp add: algebra_simps)
    moreover have "data (row x i) ! k = data x ! (i * n + k)"
      using sx assms(3) that(1,3) by (rule row_entry)
    ultimately have "batch_loop (replicate (B * (n * m)) (Finite 0)) x m n B
        ! (i * (n * m) + (k * m + j)) = data x ! (i * n + k)"
      by (simp only:)
    then show ?thesis
      using sx by (simp add: wg_def item_def)
  qed
  then show "\<exists>wg bg. get_weight_gradients self = Inr [wg, bg] \<and> shape wg = [B, n, m]
      \<and> wf_tensor wg \<and> (\<forall>i<B. \<forall>j<m. \<forall>k<n. item wg [i, k, j] = item x [i, k])"
    using run by (simp add: wg_def wf_tensor_def)
qed

text \<open>
  Scenarios 2 and 3 of the specification: the cached input \<^verbatim>\<open>[1, 2]\<close> gives
  \<^verbatim>\<open>[[1, 1, 1], [2, 2, 2]]\<close>, the cached batch \<^verbatim>\<open>[[1, 2], [3, 4]]\<close> an array of shape
  \<open>(2, 2, 3)\<close>.
\<close>

theorem weight_gradient_columns_witness:
  "inputs (zero_layer\<lparr>inputs := Some [sample]\<rparr>) = Some (sample # [])
   \<and> inputs (zero_layer\<lparr>inputs := Some [batch]\<rparr>) = Some (batch # [])
   \<and> shape (w zero_layer) = [2, 3] \<and> wf_tensor sample \<and> shape sample = [2]
   \<and> wf_tensor batch \<and> shape batch = [2, 2]
   \<and> (\<exists>wg bg. get_weight_gradients (zero_layer\<lparr>inputs := Some [sample]\<rparr>) = Inr [wg, bg]
         \<and> shape wg = [2, 3] \<and> wf_tensor wg
         \<and> (\<forall>j<3. \<forall>k<2. item wg [k, j] = item sample [k]))
   \<and> (\<exists>wg bg. get_weight_gradients (zero_layer\<lparr>inputs := Some [batch]\<rparr>) = Inr [wg, bg]
         \<and> shape wg = [2, 2, 3] \<and> wf_tensor wg
         \<and> (\<forall>i<2. \<forall>j<3. \<forall>k<2. item wg [i, k, j] = item batch [i, k]))
   \<and> get_weight_gradients (zero_layer\<lparr>inputs := Some [sample]\<rparr>)
       = Inr [Tensor [2, 3] [Finite 1, Finite 1, Finite 1, Finite 2, Finite 2, Finite 2],
              Tensor [3] [Finite 1, Finite 1, Finite 1]]"
proof -
  have i1: "inputs (zero_layer\<lparr>inputs := Some [sample]\<rparr>) = Some (sample # [])"
    and i2: "inputs (zero_layer\<lparr>inputs := Some [batch]\<rparr>) = Some (batch # [])"
    by simp_all
  have hw: "shape (w zero_layer) = [2, 3]" by (simp add: zero_layer_def)
  have hw1: "shape (w (zero_layer\<lparr>inputs := Some [sample]\<rparr>)) = [2, 3]"
    and hw2: "shape (w (zero_layer\<lparr>inputs := Some [batch]\<rparr>)) = [2, 3]"
    by (simp_all add: zero_layer_def)
  have hs: "wf_tensor sample" and ss: "shape sample = [2]"
    and ht: "wf_tensor batch" and st: "shape batch = [2, 2]"
    by (simp_all add: sample_def batch_def wf_tensor_def)
  have one: "\<exists>wg bg. get_weight_gradients (zero_layer\<lparr>inputs := Some [sample]\<rparr>) = Inr [wg, bg]
         \<and> shape wg = [2, 3] \<and> wf_tensor wg
         \<and> (\<forall>j<3. \<forall>k<2. item wg [k, j] = item sample [k])"
    using weight_gradient_columns [OF i1 hw1 hs, of 2 0] ss by blast
  have two: "\<exists>wg bg. get_weight_gradients (zero_layer\<lparr>inputs := Some [batch]\<rparr>) = Inr [wg, bg]
         \<and> shape wg = [2, 2, 3] \<and> wf_tensor wg
         \<and> (\<forall>i<2. \<forall>j<3. \<forall>k<2. item wg [i, k, j] = item batch [i, k])"
    using weight_gradient_columns [OF i2 hw2 ht, of 2 2] st by blast
  have run: "get_weight_gradients (zero_layer\<lparr>inputs := Some [sample]\<rparr>)
       = Inr [Tensor [2, 3] [Finite 1, Finite 1, Finite 1, Finite 2, Finite 2, Finite 2],
              Tensor [3] [Finite 1, Finite 1, Finite 1]]"
    by (simp add: zero_layer_def sample_def zeros_def ones_def get_weight_gradients_def ndim_def
        set_column_def assign_strided_def upt_rec [of _ "numeral _"] upt_rec [of _ "Suc _"]
        numeral_2_eq_2 numeral_3_eq_3)
  show ?thesis
    using i1 i2 hw hs ss ht st one two run by blast
qed

subsection \<open>C3: the bias gradient\<close>

text \<open>
  C3. With a cached input of rank 1 or of rank 2, of any length and any batch size, the
  second element of \<open>get_weight_gradients\<close> is the vector of \<open>m\<close> ones, \<open>m\<close> the output
  size; its value does not refer to the cached input.
\<close>

theorem bias_gradient_all_ones:
  assumes "inputs self = Some (x # others)" and "shape (w self) = [n_in, m]"
    and "ndim x = 1 \<or> ndim x = 2"
  shows "\<exists>wg. get_weight_gradients self = Inr [wg, Tensor [m] (replicate m (Finite 1))]"
  using assms by (auto simp add: get_weight_gradients_def ndim_def ones_def Let_def)

theorem bias_gradient_all_ones_witness:
  "inputs (zero_layer\<lparr>inputs := Some [sample]\<rparr>) = Some (sample # [])
   \<and> inputs (zero_layer\<lparr>inputs := Some [batch]\<rparr>) = Some (batch # [])
   \<and> shape (w zero_layer) = [2, 3] \<and> ndim sample = 1 \<and> ndim batch = 2
   \<and> (\<exists>wg. get_weight_gradients (zero_layer\<lparr>inputs := Some [sample]\<rparr>)
          = Inr [wg, Tensor [3] [Finite 1, Finite 1, Finite 1]])
   \<and> (\<exists>wg. get_weight_gradients (zero_layer\<lparr>inputs := Some [batch]\<rparr>)
          = Inr [wg, Tensor [3] [Finite 1, Finite 1, Finite 1]])"
proof -
  have i1: "inputs (zero_layer\<lparr>inputs := Some [sample]\<rparr>) = Some (sample # [])"
    and i2: "inputs (zero_layer\<lparr>inputs := Some [batch]\<rparr>) = Some (batch # [])"
    by simp_all
  have hw: "shape (w zero_layer) = [2, 3]" by (simp add: zero_layer_def)
  have hw1: "shape (w (zero_layer\<lparr>inputs := Some [sample]\<rparr>)) = [2, 3]"
    and hw2: "shape (w (zero_layer\<lparr>inputs := Some [batch]\<rparr>)) = [2, 3]"
    by (simp_all add: zero_layer_def)
  have r1: "ndim sample = 1" and r2: "ndim batch = 2"
    by (simp_all add: sample_def batch_def ndim_def)
  have three: "replicate 3 (Finite 1) = [Finite 1, Finite 1, Finite 1]"
    by (simp add: numeral_3_eq_3)
  have one: "\<exists>wg. get_weight_gradients (zero_layer\<lparr>inputs := Some [sample]\<rparr>)
          = Inr [wg, Tensor [3] [Finite 1, Finite 1, Finite 1]]"
    using bias_gradient_all_ones [OF i1 hw1 disjI1 [OF r1]] three by simp
  have two: "\<exists>wg. get_weight_gradients (zero_layer\<lparr>inputs := Some [batch]\<rparr>)
          = Inr [wg, Tensor [3] [Finite 1, Finite 1, Finite 1]]"
    using bias_gradient_all_ones [OF i2 hw2 disjI2 [OF r2]] three by simp
  show ?thesis
    using i1 i2 hw r1 r2 one two by blast
qed

subsection \<open>C4: what forward leaves in the cache\<close>

text \<open>
  C4, as amended. \<open>forward\<close> does not write the cached input: the promotion of a rank-1
  input is local to the call and only shapes the output. After any call the object (\<open>W\<close>,
  \<open>b\<close> and the cached inputs) is what it was before, so \<open>get_weight_gradients\<close> computes
  from whatever array was cached before the call.
\<close>

theorem forward_leaves_cache:
  "snd (forward self x) = self
   \<and> inputs (snd (forward self x)) = inputs self
   \<and> get_weight_gradients (snd (forward self x)) = get_weight_gradients self"
  by (simp add: forward_state)

text \<open>
  The claim as stated fails on the input \<^verbatim>\<open>[1, 2]\<close>. On the fresh layer the cache is
  still unset after \<open>forward\<close>. On a layer whose cache holds the argument as passed, the
  cache holds the rank-1 array after \<open>forward\<close>, not the promoted one, and
  \<open>get_weight_gradients\<close> returns the rank-2 weight gradient of its rank-1 branch.
\<close>

theorem forward_cache_counterexample:
  "fst (forward zero_layer sample) = Inr (Tensor [1, 3] [Finite 0, Finite 0, Finite 0])
   \<and> inputs (snd (forward zero_layer sample)) = None
   \<and> inputs (snd (forward zero_layer sample)) \<noteq> Some [expand_dims0 sample]
   \<and> get_weight_gradients (snd (forward zero_layer sample)) = Inl AttributeError
   \<and> inputs (snd (forward (zero_layer\<lparr>inputs := Some [sample]\<rparr>) sample)) = Some [sample]
   \<and> inputs (snd (forward (zero_layer\<lparr>inputs := Some [sample]\<rparr>) sample))
        \<noteq> Some [expand_dims0 sample]
   \<and> get_weight_gradients (snd (forward (zero_layer\<lparr>inputs := Some [sample]\<rparr>) sample))
        = Inr [Tensor [2, 3] [Finite 1, Finite 1, Finite 1, Finite 2, Finite 2, Finite 2],
               Tensor [3] [Finite 1, Finite 1, Finite 1]]"
proof -
  have ss: "shape sample = [2]" by (simp add: sample_def)
  have hw: "shape (w zero_layer) = [2, 3]" and hb: "shape (b zero_layer) = [3]"
    by (simp_all add: zero_layer_def)
  have out: "fst (forward zero_layer sample) = Inr (Tensor [1, 3] [Finite 0, Finite 0, Finite 0])"
    by (simp add: forward_1d [OF ss hw hb] dot_def upt_rec [of _ "numeral _"]
        upt_rec [of _ "Suc _"])
      (simp add: zero_layer_def sample_def zeros_def)
  have fresh: "inputs zero_layer = None" by (simp add: zero_layer_def)
  have noattr: "get_weight_gradients zero_layer = Inl AttributeError"
    by (simp add: get_weight_gradients_def zero_layer_def)
  have differ: "sample \<noteq> expand_dims0 sample"
    by (simp add: sample_def expand_dims0_def)
  have grads: "get_weight_gradients (zero_layer\<lparr>inputs := Some [sample]\<rparr>)
        = Inr [Tensor [2, 3] [Finite 1, Finite 1, Finite 1, Finite 2, Finite 2, Finite 2],
               Tensor [3] [Finite 1, Finite 1, Finite 1]]"
    by (simp add: zero_layer_def sample_def zeros_def ones_def get_weight_gradients_def ndim_def
        set_column_def assign_strided_def upt_rec [of _ "numeral _"] upt_rec [of _ "Suc _"]
        numeral_2_eq_2 numeral_3_eq_3)
  show ?thesis
    using out fresh noattr differ grads by (simp add: forward_state)
qed

subsection \<open>C5: an input of the wrong width\<close>

text \<open>
  C5, as amended. For a layer with \<open>W\<close> of shape \<open>(n, m)\<close> and every input of rank at least
  1 whose last extent differs from \<open>n\<close>, \<open>forward\<close> fails with the \<^verbatim>\<open>ValueError\<close> that
  numpy raises inside the matrix product; the layer makes no shape check and raises no
  error of its own.
\<close>

theorem forward_mismatch_propagates:
  assumes "shape (w self) = [n, m]" and "shape x \<noteq> []" and "last (shape x) \<noteq> n"
  shows "fst (forward self x) = Inl MatmulError
       \<and> raised_by_numpy MatmulError \<and> \<not> raised_by_layer MatmulError"
  using forward_mismatch [OF assms] by simp

theorem forward_mismatch_propagates_witness:
  "shape (w zero_layer) = [2, 3] \<and> shape (Tensor [4, 5] (replicate 20 (Finite 1))) \<noteq> []
   \<and> last (shape (Tensor [4, 5] (replicate 20 (Finite 1)))) \<noteq> 2
   \<and> fst (forward zero_layer (Tensor [4, 5] (replicate 20 (Finite 1)))) = Inl MatmulError
   \<and> raised_by_numpy MatmulError \<and> \<not> raised_by_layer MatmulError"
proof -
  have hw: "shape (w zero_layer) = [2, 3]" by (simp add: zero_layer_def)
  have h1: "shape (Tensor [4, 5] (replicate 20 (Finite 1))) \<noteq> []" by simp
  have h2: "last (shape (Tensor [4, 5] (replicate 20 (Finite 1)))) \<noteq> 2" by simp
  show ?thesis
    using hw h1 h2 forward_mismatch_propagates [OF hw h1 h2] by blast
qed

text \<open>
  The claim as stated fails on the input \<^verbatim>\<open>[1, 2, 3]\<close> for the layer of input size 2:
  the error is numpy's, not one the layer raises.
\<close>

theorem forward_mismatch_counterexample:
  "fst (forward zero_layer (Tensor [3] [Finite 1, Finite 2, Finite 3])) = Inl MatmulError
   \<and> raised_by_numpy MatmulError \<and> \<not> raised_by_layer MatmulError"
  by (simp add: forward_def matmul_def ndim_def expand_dims0_def zero_layer_def zeros_def)

subsection \<open>C6: gradients before any forward call\<close>

text \<open>
  C6, as amended. On a freshly constructed layer \<open>get_weight_gradients\<close> fails, with the
  \<^verbatim>\<open>AttributeError\<close> of reading the cache that was never set and not with an error the
  layer raises; \<open>get_input_gradients\<close> succeeds and returns \<open>[W]\<close>.
\<close>

theorem fresh_layer_gradients:
  assumes "Dense_init g n m s = Inr self"
  shows "get_weight_gradients self = Inl AttributeError
       \<and> \<not> raised_by_layer AttributeError
       \<and> get_input_gradients self = [w self]"
  using Dense_init_fields [OF assms]
  by (simp add: get_weight_gradients_def get_input_gradients_def)

theorem fresh_layer_gradients_witness:
  "Dense_init null_random 2 3 ''zero'' = Inr zero_layer
   \<and> get_weight_gradients zero_layer = Inl AttributeError
   \<and> \<not> raised_by_layer AttributeError
   \<and> get_input_gradients zero_layer = [w zero_layer]"
  using Dense_init_zero_layer fresh_layer_gradients [OF Dense_init_zero_layer] by blast

text \<open>
  The claim as stated fails on the fresh layer \<^verbatim>\<open>Dense(2, 3, "zero")\<close>: one gradient
  operation succeeds, and the other fails with an error that is not the layer's.
\<close>

theorem fresh_layer_counterexample:
  "Dense_init null_random 2 3 ''zero'' = Inr zero_layer
   \<and> get_input_gradients zero_layer = [zeros [2, 3]]
   \<and> get_weight_gradients zero_layer = Inl AttributeError
   \<and> \<not> raised_by_layer AttributeError"
  using Dense_init_zero_layer
  by (simp add: get_input_gradients_def get_weight_gradients_def zero_layer_def)

subsection \<open>C7: an unknown initializer\<close>




subsection \<open>C8: a recognised initializer\<close>

text \<open>
  C8. For a positive input size and every name whose lower-case form is one of the six
  recognised names, the construction succeeds, \<open>weights\<close> is the two parameters \<open>[W, b]\<close>
  in this order, \<open>W\<close> has shape \<open>(input_size, output_size)\<close>, and \<open>b\<close> is the vector of
  \<open>output_size\<close> zeros.
\<close>

theorem known_initializer_weights:
  assumes "lower s \<in> set DENSE_INITIALIZERS" and "0 < n"
  shows "\<exists>self. Dense_init g n m s = Inr self
           \<and> weights self = [w self, b self]
           \<and> length (weights self) = 2
           \<and> shape (w self) = [n, m] \<and> wf_tensor (w self)
           \<and> shape (b self) = [m] \<and> data (b self) = replicate m (Finite 0)"
proof -
  obtain wt where "initialize_weight g s n m = Inr (wt, zeros [m])"
    and "shape wt = [n, m]" and "wf_tensor wt"
    using initialize_weight_known [OF assms] by blast
  then show ?thesis
    by (simp add: Dense_init_def weights_def zeros_def)
qed

theorem known_initializer_weights_witness:
  "lower ''Kaiming Uniform'' \<in> set DENSE_INITIALIZERS \<and> (0::nat) < 2
   \<and> (\<exists>self. Dense_init null_random 2 3 ''Kaiming Uniform'' = Inr self
           \<and> weights self = [w self, b self]
           \<and> length (weights self) = 2
           \<and> shape (w self) = [2, 3] \<and> wf_tensor (w self)
           \<and> shape (b self) = [3] \<and> data (b self) = replicate 3 (Finite 0))"
proof -
  have h: "lower ''Kaiming Uniform'' \<in> set DENSE_INITIALIZERS"
    by (simp add: lower_def lower_char_def DENSE_INITIALIZERS_def)
  have p2: "(0::nat) < 2" by simp
  show ?thesis
    using h p2 known_initializer_weights [OF h p2, of null_random 3] by blast
qed

subsection \<open>C9: the zero initializer\<close>




subsection \<open>C10: the input gradient\<close>

text \<open>
  C10. In every state of the object \<open>get_input_gradients\<close> returns the one-element list
  of \<open>W\<close>, the first element of \<open>weights\<close>, whatever the cache holds; for a constructed
  layer, before or after any call, that is the array of shape \<open>(input_size, output_size)\<close>.
\<close>

theorem input_gradient_is_weight:
  "get_input_gradients self = [w self]
   \<and> get_input_gradients self = [weights self ! 0]
   \<and> length (get_input_gradients self) = 1
   \<and> get_input_gradients (self\<lparr>inputs := c\<rparr>) = get_input_gradients self
   \<and> (Dense_init g n m s = Inr self \<longrightarrow>
        inputs self = None \<and> get_input_gradients self = [w self] \<and> shape (w self) = [n, m])"
proof -
  have "Dense_init g n m s = Inr self \<Longrightarrow> inputs self = None \<and> shape (w self) = [n, m]"
    using Dense_init_fields by blast
  then show ?thesis
    by (auto simp add: get_input_gradients_def weights_def)
qed

theorem input_gradient_is_weight_witness:
  "Dense_init null_random 2 3 ''zero'' = Inr zero_layer
   \<and> inputs zero_layer = None
   \<and> get_input_gradients zero_layer = [w zero_layer]
   \<and> get_input_gradients (zero_layer\<lparr>inputs := Some [sample]\<rparr>) = [w zero_layer]
   \<and> shape (w zero_layer) = [2, 3]"
  using Dense_init_zero_layer
    input_gradient_is_weight [of zero_layer "Some [sample]" null_random 2 3 "''zero''"]
  by simp

end
